theory Spec2Isabelle
  imports Main "HOL-Library.Char_ord" "HOL-Library.List_Lexorder" "HOL-Library.Multiset"
begin

section \<open>Installation utilities of anomalib (src/anomalib/cli/utils/installation.py)\<close>

text \<open>
  A Python \<open>str\<close> is modelled as a \<open>string\<close> (the list of its UTF-8 bytes). The
  comparison of two Python strings is lexicographic on code points with a proper prefix
  below its extensions; on UTF-8 bytes this is the order of \<open>List_Lexorder\<close> over
  \<open>Char_ord\<close>, so \<open>min\<close>, \<open>max\<close>, \<open>\<le>\<close> on \<open>string\<close> are the source's
  \<open>min\<close>, \<open>max\<close> and comparisons.
\<close>

subsection \<open>Exceptions and warnings\<close>

text \<open>
  The three \<open>ValueError\<close>s of the module are told apart by their message: the missing torch
  requirement (line 100), the missing \<open>torch_version\<close> argument (line 263) and the
  malformed list of version criteria (line 343, with the list it reports).
\<close>

datatype value_error =
    MissingTorch
  | TorchVersionRequired
  | MalformedSpecs "string list"

text \<open>
  \<open>ValueError\<close> is one of the three above, \<open>RuntimeError\<close> carries the message of
  line 420 and \<open>KeyError\<close> the key that was looked up. \<open>AttributeError\<close> is what a
  method call on a value of the wrong type raises. \<open>LibraryError\<close> stands for an exception
  that comes out of a library call (opening a file, \<open>json.load\<close>,
  \<open>Requirement.parse\<close>), whatever its class, with a text that names it.
\<close>

datatype error =
    ValueError value_error
  | RuntimeError string
  | KeyError string
  | AttributeError
  | LibraryError string

text \<open>
  One constructor for each call of \<open>warn\<close>: line 86, line 148, line 183 (with the
  installed version, the two bounds and the version chosen) and line 384 (with the torch
  version chosen).
\<close>

datatype warning =
    MultipleTorchSpecs
  | CudaVersionNotFound
  | CudaVersionClamped string string string string
  | TorchVersionSelected string

text \<open>
  A call returns the warnings it has emitted, in order, together with either the exception
  it raised or its value. Warnings emitted before an exception are kept.
\<close>

type_synonym 'a result = "warning list \<times> (error + 'a)"

definition ok :: "'a \<Rightarrow> 'a result" where
  "ok x = ([], Inr x)"

definition raise :: "error \<Rightarrow> 'a result" where
  "raise e = ([], Inl e)"

definition warn :: "warning \<Rightarrow> unit result" where
  "warn w = ([w], Inr ())"

definition and_then :: "'a result \<Rightarrow> ('a \<Rightarrow> 'b result) \<Rightarrow> 'b result" where
  "and_then m f =
     (case m of
        (ws, Inl e) \<Rightarrow> (ws, Inl e)
      | (ws, Inr x) \<Rightarrow> (case f x of (ws', r) \<Rightarrow> (ws @ ws', r)))"

definition warnings :: "'a result \<Rightarrow> warning list" where
  "warnings m = fst m"

definition outcome :: "'a result \<Rightarrow> error + 'a" where
  "outcome m = snd m"

subsection \<open>String operations of Python used by the module\<close>

text \<open>\<open>s.startswith(p)\<close>, and \<open>s.startswith((p1, p2, ...))\<close> for a tuple of prefixes.\<close>

definition startswith :: "string \<Rightarrow> string \<Rightarrow> bool" where
  "startswith s p = (take (length p) s = p)"

definition startswith_any :: "string \<Rightarrow> string list \<Rightarrow> bool" where
  "startswith_any s ps = list_ex (startswith s) ps"

text \<open>
  \<open>s.replace(old, new)\<close>: the occurrences of \<open>old\<close> are replaced from the left, without
  overlap; an empty \<open>old\<close> matches before every character and at the end.
\<close>

function str_replace :: "string \<Rightarrow> string \<Rightarrow> string \<Rightarrow> string" where
  "str_replace old new [] = (if old = [] then new else [])"
| "str_replace old new (c # cs) =
     (if old = [] then new @ c # str_replace old new cs
      else if startswith (c # cs) old
        then new @ str_replace old new (drop (length old) (c # cs))
      else c # str_replace old new cs)"
  by pat_completeness auto
termination
  by (relation "measure (\<lambda>(old, new, s). length s)") auto

text \<open>\<open>s.split(sep)\<close> for a separator of one character, and \<open>sep.join(parts)\<close>.\<close>

fun split_on :: "char \<Rightarrow> string \<Rightarrow> string list" where
  "split_on sep [] = [[]]"
| "split_on sep (c # cs) =
     (if c = sep then [] # split_on sep cs
      else (case split_on sep cs of
              [] \<Rightarrow> [[c]]
            | w # ws \<Rightarrow> (c # w) # ws))"

fun join :: "string \<Rightarrow> string list \<Rightarrow> string" where
  "join sep [] = []"
| "join sep [x] = x"
| "join sep (x # y # ys) = x @ sep @ join sep (y # ys)"

text \<open>The truth value of an optional string: \<open>None\<close> and \<open>""\<close> are false.\<close>

fun truthy :: "string option \<Rightarrow> bool" where
  "truthy None = False"
| "truthy (Some s) = (s \<noteq> [])"

subsection \<open>The compatibility table\<close>

record torch_build =
  torchvision :: string
  cuda :: "string \<times> string"

definition AVAILABLE_TORCH_VERSIONS :: "(string \<times> torch_build) list" where
  "AVAILABLE_TORCH_VERSIONS =
     [(''2.0.0'', \<lparr>torchvision = ''0.15.1'', cuda = (''11.7'', ''11.8'')\<rparr>),
      (''2.0.1'', \<lparr>torchvision = ''0.15.2'', cuda = (''11.7'', ''11.8'')\<rparr>),
      (''2.1.1'', \<lparr>torchvision = ''0.16.1'', cuda = (''11.8'', ''12.1'')\<rparr>),
      (''2.1.2'', \<lparr>torchvision = ''0.16.2'', cuda = (''11.8'', ''12.1'')\<rparr>),
      (''2.2.0'', \<lparr>torchvision = ''0.16.2'', cuda = (''11.8'', ''12.1'')\<rparr>)]"

text \<open>\<open>d[k]\<close> on a dictionary raises \<open>KeyError\<close> for a missing key.\<close>

definition lookup :: "(string \<times> 'v) list \<Rightarrow> string \<Rightarrow> 'v result" where
  "lookup d k = (case map_of d k of None \<Rightarrow> raise (KeyError k) | Some v \<Rightarrow> ok v)"

text \<open>\<open>max(d.keys())\<close> on a dictionary with at least one key.\<close>

definition max_key :: "(string \<times> 'v) list \<Rightarrow> string" where
  "max_key d = fold max (map fst (tl d)) (fst (hd d))"

subsection \<open>Requirements\<close>

text \<open>
  \<open>pkg_resources.Requirement\<close> is a library class. The module reads its attributes
  \<open>unsafe_name\<close> and \<open>specs\<close> (the pairs of operator and version) and calls \<open>str\<close> on it;
  \<open>str\<close> renders the name first and then the extras, specifiers, URL and marker, which
  are kept here as one text.
\<close>

record requirement =
  unsafe_name :: string
  specs :: "(string \<times> string) list"
  rendered_tail :: string

definition str_requirement :: "requirement \<Rightarrow> string" where
  "str_requirement r = unsafe_name r @ rendered_tail r"

text \<open>
  \<open>list(set(xs))\<close>: the elements of \<open>xs\<close> without duplicates, in the iteration order of
  the set, which the language leaves open. The order is a parameter: \<open>arrange ks\<close> inserts
  each element at the position its code \<open>k\<close> names, so every \<open>ks\<close> gives a rearrangement.
\<close>

fun arrange :: "nat list \<Rightarrow> 'a list \<Rightarrow> 'a list" where
  "arrange ks [] = []"
| "arrange [] (x # xs) = x # xs"
| "arrange (k # ks) (x # xs) =
     (let ys = arrange ks xs; n = k mod (length ys + 1)
      in take n ys @ x # drop n ys)"

definition list_of_set :: "nat list \<Rightarrow> 'a list \<Rightarrow> 'a list" where
  "list_of_set ks xs = arrange ks (remdups xs)"

subsection \<open>parse_requirements\<close>

text \<open>
  The loop of lines 82 to 96, with its two variables \<open>torch_requirement\<close> and
  \<open>other_requirements\<close>.
\<close>

fun parse_loop ::
  "requirement list \<Rightarrow> string option \<Rightarrow> string list \<Rightarrow> (string option \<times> string list) result"
where
  "parse_loop [] torch_requirement other_requirements =
     ok (torch_requirement, other_requirements)"
| "parse_loop (r # rs) torch_requirement other_requirements =
     (if unsafe_name r = ''torch'' then
        and_then (if length (specs r) > 1 then warn MultipleTorchSpecs else ok ())
          (\<lambda>_. parse_loop rs (Some (str_requirement r)) other_requirements)
      else parse_loop rs torch_requirement (other_requirements @ [str_requirement r]))"

definition parse_requirements ::
  "nat list \<Rightarrow> requirement list \<Rightarrow> bool \<Rightarrow> (string option \<times> string list) result"
where
  "parse_requirements set_order requirements skip_torch =
     and_then (parse_loop requirements None [])
       (\<lambda>(torch_requirement, other_requirements).
          if \<not> skip_torch \<and> \<not> truthy torch_requirement
          then raise (ValueError MissingTorch)
          else ok (torch_requirement, list_of_set set_order other_requirements))"

subsection \<open>The host and get_cuda_version\<close>

text \<open>
  What \<open>json.load\<close> returns. The module reads dictionaries, strings and \<open>None\<close>;
  a number, which it never reads, is kept as an integer.
\<close>

datatype json =
    JNull
  | JBool bool
  | JNum int
  | JStr string
  | JArr "json list"
  | JObj "(string \<times> json) list"

text \<open>
  What the module observes of the machine it runs on:
  \<^item> \<open>platform_system\<close>: the value of \<open>platform.system()\<close>;
  \<^item> \<open>cuda_home_exists\<close>: whether the path in \<open>CUDA_HOME\<close> (default \<open>/usr/local/cuda\<close>)
    exists;
  \<^item> \<open>version_json\<close>: \<open>None\<close> when \<open>version.json\<close> under that path is not a file,
    otherwise what opening and loading it gives, an exception (by its text) or the data;
  \<^item> \<open>nvcc_version\<close>: what running \<open>nvcc --version\<close>, reading its output and searching
    it for \<open>cuda_(\d+\.\d+)\<close> gives: an \<open>OSError\<close>, which line 146 catches, another
    exception (by its text; a \<open>UnicodeDecodeError\<close> of \<open>read\<close>, say), which it does not
    catch, or group 1 of the first match, if any.
\<close>

datatype nvcc_outcome = NvccOSError | NvccRaises string | NvccMatch "string option"

record host =
  platform_system :: string
  cuda_home_exists :: bool
  version_json :: "(string + json) option"
  nvcc_version :: nvcc_outcome

text \<open>\<open>d.get(k, default)\<close>: a method of dictionaries only.\<close>

definition dict_get :: "json \<Rightarrow> string \<Rightarrow> json \<Rightarrow> json result" where
  "dict_get d k dflt =
     (case d of
        JObj kvs \<Rightarrow> ok (case map_of kvs k of None \<Rightarrow> dflt | Some v \<Rightarrow> v)
      | _ \<Rightarrow> raise AttributeError)"

text \<open>
  Lines 124 to 135; the value \<open>None\<close> means that the function has not returned and goes
  on to the \<open>nvcc\<close> check.
\<close>

definition cuda_version_of_file :: "host \<Rightarrow> string option result" where
  "cuda_version_of_file h =
     (if cuda_home_exists h then
        (case version_json h of
           None \<Rightarrow> ok None
         | Some (Inl e) \<Rightarrow> raise (LibraryError e)
         | Some (Inr data) \<Rightarrow>
             and_then (dict_get data ''cuda'' (JObj [])) (\<lambda>c.
             and_then (dict_get c ''version'' JNull) (\<lambda>cuda_version.
               (case cuda_version of
                  JNull \<Rightarrow> ok None
                | JStr s \<Rightarrow> ok (Some (join ''.'' (take 2 (split_on CHR ''.'' s))))
                | _ \<Rightarrow> raise AttributeError))))
      else ok None)"

text \<open>Lines 137 to 149.\<close>

definition cuda_version_of_nvcc :: "host \<Rightarrow> string option result" where
  "cuda_version_of_nvcc h =
     (case nvcc_version h of
        NvccOSError \<Rightarrow> and_then (warn CudaVersionNotFound) (\<lambda>_. ok None)
      | NvccRaises e \<Rightarrow> raise (LibraryError e)
      | NvccMatch (Some v) \<Rightarrow> ok (Some v)
      | NvccMatch None \<Rightarrow> ok None)"

definition get_cuda_version :: "host \<Rightarrow> string option result" where
  "get_cuda_version h =
     and_then (cuda_version_of_file h) (\<lambda>found.
       (case found of
          Some v \<Rightarrow> ok (Some v)
        | None \<Rightarrow> cuda_version_of_nvcc h))"

subsection \<open>Version negotiation and suffix\<close>

definition update_cuda_version_with_available_torch_cuda_build ::
  "string \<Rightarrow> string \<Rightarrow> string result"
where
  "update_cuda_version_with_available_torch_cuda_build cuda_version torch_version =
     and_then (lookup AVAILABLE_TORCH_VERSIONS torch_version) (\<lambda>build.
       let max_supported_cuda = max (fst (cuda build)) (snd (cuda build));
           min_supported_cuda = min (fst (cuda build)) (snd (cuda build));
           bounded_cuda_version = max (min cuda_version max_supported_cuda) min_supported_cuda
       in if cuda_version \<noteq> bounded_cuda_version then
            and_then
              (warn (CudaVersionClamped cuda_version min_supported_cuda max_supported_cuda
                       bounded_cuda_version))
              (\<lambda>_. ok bounded_cuda_version)
          else ok cuda_version)"

definition get_cuda_suffix :: "string \<Rightarrow> string" where
  "get_cuda_suffix cuda_version = ''cu'' @ str_replace ''.'' '''' cuda_version"

definition get_hardware_suffix :: "host \<Rightarrow> bool \<Rightarrow> string option \<Rightarrow> string result" where
  "get_hardware_suffix h with_available_torch_build torch_version =
     and_then (get_cuda_version h) (\<lambda>cuda_version.
       if truthy cuda_version then
         and_then
           (if with_available_torch_build then
              (case torch_version of
                 None \<Rightarrow> raise (ValueError TorchVersionRequired)
               | Some tv \<Rightarrow>
                   update_cuda_version_with_available_torch_cuda_build (the cuda_version) tv)
            else ok (the cuda_version))
           (\<lambda>cuda_version. ok (get_cuda_suffix cuda_version))
       else ok ''cpu'')"

subsection \<open>add_hardware_suffix_to_torch\<close>

text \<open>
  Lines 321 and 325: the version with the suffix, unless it starts with \<open>2.1\<close> or
  \<open>2.2\<close>, behind its operator.
\<close>

definition updated_spec :: "string \<Rightarrow> string \<times> string \<Rightarrow> string" where
  "updated_spec hardware_suffix spec =
     (case spec of
        (operator, version) \<Rightarrow>
          let updated_version =
                (if \<not> startswith_any version [''2.1'', ''2.2'']
                 then version @ ''+'' @ hardware_suffix else version)
          in operator @ updated_version)"

text \<open>
  The loop of lines 319 to 325, with its variables \<open>hardware_suffix\<close> and
  \<open>updated_specs\<close>.
\<close>

fun suffix_loop ::
  "host \<Rightarrow> bool \<Rightarrow> (string \<times> string) list \<Rightarrow> string option \<Rightarrow> string list
     \<Rightarrow> string list result"
where
  "suffix_loop h with_available_torch_build [] hardware_suffix updated_specs =
     ok updated_specs"
| "suffix_loop h with_available_torch_build ((operator, version) # rest) hardware_suffix
       updated_specs =
     and_then
       (if truthy hardware_suffix then ok (the hardware_suffix)
        else get_hardware_suffix h with_available_torch_build (Some version))
       (\<lambda>hardware_suffix.
          suffix_loop h with_available_torch_build rest (Some hardware_suffix)
            (updated_specs @ [updated_spec hardware_suffix (operator, version)]))"

definition add_hardware_suffix_to_torch ::
  "host \<Rightarrow> requirement \<Rightarrow> string option \<Rightarrow> bool \<Rightarrow> string result"
where
  "add_hardware_suffix_to_torch h requirement hardware_suffix with_available_torch_build =
     and_then
       (suffix_loop h with_available_torch_build (specs requirement) hardware_suffix [])
       (\<lambda>updated_specs.
          (case updated_specs of
             [] \<Rightarrow> ok ''''
           | [s0] \<Rightarrow> ok (unsafe_name requirement @ s0)
           | [s0, s1] \<Rightarrow> ok (unsafe_name requirement @ s0 @ '', '' @ s1)
           | _ \<Rightarrow> raise (ValueError (MalformedSpecs updated_specs))))"

subsection \<open>get_torch_install_args\<close>

text \<open>
  The argument is a string or a requirement. A string is parsed by \<open>Requirement.parse\<close>,
  a function of the library and a parameter here: it gives the requirement, or the text of
  the exception it raises.
\<close>

datatype requirement_arg = Str string | Req requirement

text \<open>Lines 369 and 370.\<close>

definition parse_if_str ::
  "(string \<Rightarrow> string + requirement) \<Rightarrow> requirement_arg \<Rightarrow> requirement result"
where
  "parse_if_str Requirement_parse arg =
     (case arg of
        Str s \<Rightarrow>
          (case Requirement_parse s of
             Inl e \<Rightarrow> raise (LibraryError e)
           | Inr r \<Rightarrow> ok r)
      | Req r \<Rightarrow> ok r)"

text \<open>Lines 376 to 380: the index of the first spec whose operator contains \<open>=\<close>, else 0.\<close>

fun first_eq_idx :: "(string \<times> string) list \<Rightarrow> nat \<Rightarrow> nat option" where
  "first_eq_idx [] i = None"
| "first_eq_idx ((operator, version) # rest) i =
     (if CHR ''='' \<in> set operator then Some i else first_eq_idx rest (Suc i))"

definition select_spec_idx :: "(string \<times> string) list \<Rightarrow> nat" where
  "select_spec_idx sp = (case first_eq_idx sp 0 of None \<Rightarrow> 0 | Some i \<Rightarrow> i)"

definition get_torch_install_args ::
  "(string \<Rightarrow> string + requirement) \<Rightarrow> host \<Rightarrow> requirement_arg \<Rightarrow> string list result"
where
  "get_torch_install_args Requirement_parse h arg =
     and_then (parse_if_str Requirement_parse arg)
       (\<lambda>requirement.
          if length (specs requirement) < 1 then ok [str_requirement requirement]
          else
            (case specs requirement ! select_spec_idx (specs requirement) of
               (operator, version) \<Rightarrow>
                 and_then
                   (if version \<notin> set (map fst AVAILABLE_TORCH_VERSIONS) then
                      and_then (warn (TorchVersionSelected (max_key AVAILABLE_TORCH_VERSIONS)))
                        (\<lambda>_. ok (max_key AVAILABLE_TORCH_VERSIONS))
                    else ok version)
                   (\<lambda>version.
                      if platform_system h \<in> set [''Linux'', ''Windows''] then
                        and_then (get_hardware_suffix h True (Some version)) (\<lambda>hardware_suffix.
                        and_then
                          (add_hardware_suffix_to_torch h requirement (Some hardware_suffix) True)
                          (\<lambda>torch_version.
                        and_then (lookup AVAILABLE_TORCH_VERSIONS version) (\<lambda>build.
                          let index_url = ''https://download.pytorch.org/whl/'' @ hardware_suffix;
                              torchvision_version = torchvision build;
                              torchvision_requirement =
                                ''torchvision'' @ operator @ torchvision_version;
                              torchvision_requirement =
                                (if \<not> startswith torchvision_version ''0.16''
                                 then torchvision_requirement @ ''+'' @ hardware_suffix
                                 else torchvision_requirement)
                          in ok [''--extra-index-url'', index_url, torch_version,
                                 torchvision_requirement])))
                      else if platform_system h \<in> set [''macos'', ''Darwin''] then
                        ok [str_requirement requirement]
                      else raise (RuntimeError (''Unsupported OS: '' @ platform_system h)))))"

subsection \<open>Example inputs\<close>

text \<open>
  The requirements \<open>torch==2.0.1\<close>, \<open>torch==2.1.1\<close>, \<open>torch==1.13.0\<close>, \<open>torch\<close>,
  \<open>torch>=1.13.0,<2.2.0,!=2.0.0\<close> and \<open>onnx>=1.8.1\<close>, as \<open>Requirement.parse\<close>
  builds them.
\<close>

definition torch_2_0_1 :: requirement where
  "torch_2_0_1 =
     \<lparr>unsafe_name = ''torch'', specs = [(''=='', ''2.0.1'')], rendered_tail = ''==2.0.1''\<rparr>"

definition torch_2_1_1 :: requirement where
  "torch_2_1_1 =
     \<lparr>unsafe_name = ''torch'', specs = [(''=='', ''2.1.1'')], rendered_tail = ''==2.1.1''\<rparr>"

definition torch_1_13_0 :: requirement where
  "torch_1_13_0 =
     \<lparr>unsafe_name = ''torch'', specs = [(''=='', ''1.13.0'')], rendered_tail = ''==1.13.0''\<rparr>"

definition torch_bare :: requirement where
  "torch_bare = \<lparr>unsafe_name = ''torch'', specs = [], rendered_tail = []\<rparr>"

definition torch_three :: requirement where
  "torch_three =
     \<lparr>unsafe_name = ''torch'',
      specs = [(''>='', ''1.13.0''), (''<'', ''2.2.0''), (''!='', ''2.0.0'')],
      rendered_tail = ''!=2.0.0,<2.2.0,>=1.13.0''\<rparr>"

definition onnx_1_8_1 :: requirement where
  "onnx_1_8_1 =
     \<lparr>unsafe_name = ''onnx'', specs = [(''>='', ''1.8.1'')], rendered_tail = ''>=1.8.1''\<rparr>"

text \<open>
  A Linux host without CUDA, a Linux host whose \<open>nvcc\<close> reports CUDA 11.8, a Linux host
  whose \<open>version.json\<close> reports CUDA 12.1.105, and a FreeBSD host without CUDA.
\<close>

definition linux_cpu :: host where
  "linux_cpu =
     \<lparr>platform_system = ''Linux'', cuda_home_exists = False, version_json = None,
      nvcc_version = NvccMatch None\<rparr>"

definition linux_nvcc_11_8 :: host where
  "linux_nvcc_11_8 =
     \<lparr>platform_system = ''Linux'', cuda_home_exists = False, version_json = None,
      nvcc_version = NvccMatch (Some ''11.8'')\<rparr>"

definition linux_json_12_1 :: host where
  "linux_json_12_1 =
     \<lparr>platform_system = ''Linux'', cuda_home_exists = True,
      version_json = Some (Inr (JObj [(''cuda'', JObj [(''version'', JStr ''12.1.105'')])])),
      nvcc_version = NvccOSError\<rparr>"

definition freebsd_cpu :: host where
  "freebsd_cpu =
     \<lparr>platform_system = ''FreeBSD'', cuda_home_exists = False, version_json = None,
      nvcc_version = NvccMatch None\<rparr>"

text \<open>A \<open>Requirement.parse\<close> that rejects every text.\<close>

definition parse_nothing :: "string \<Rightarrow> string + requirement" where
  "parse_nothing s = Inl ''InvalidRequirement''"

section \<open>Properties\<close>

subsection \<open>Results: values, exceptions, warnings\<close>

lemma and_then_ok [simp]: "and_then (ok x) f = f x"
  by (simp add: and_then_def ok_def split: prod.splits)

lemma and_then_raise [simp]: "and_then (raise e) f = raise e"
  by (simp add: and_then_def raise_def)

lemma and_then_value [simp]: "and_then ([], Inr x) f = f x"
  by (simp add: and_then_def split: prod.splits)

lemma and_then_error [simp]: "and_then (ws, Inl e) f = (ws, Inl e)"
  by (simp add: and_then_def)

lemma and_then_assoc [simp]:
  "and_then (and_then m f) g = and_then m (\<lambda>x. and_then (f x) g)"
  by (simp add: and_then_def split: prod.splits sum.splits)

lemma outcome_ok [simp]: "outcome (ok x) = Inr x"
  by (simp add: outcome_def ok_def)

lemma outcome_raise [simp]: "outcome (raise e) = Inl e"
  by (simp add: outcome_def raise_def)

lemma outcome_warn [simp]: "outcome (warn w) = Inr ()"
  by (simp add: outcome_def warn_def)

lemma warnings_ok [simp]: "warnings (ok x) = []"
  by (simp add: warnings_def ok_def)

lemma warnings_raise [simp]: "warnings (raise e) = []"
  by (simp add: warnings_def raise_def)

lemma warnings_warn [simp]: "warnings (warn w) = [w]"
  by (simp add: warnings_def warn_def)

lemma outcome_and_then:
  "outcome (and_then m f) = (case outcome m of Inl e \<Rightarrow> Inl e | Inr x \<Rightarrow> outcome (f x))"
  by (simp add: and_then_def outcome_def split: prod.splits sum.splits)

lemma warnings_and_then:
  "warnings (and_then m f) =
     (case outcome m of Inl e \<Rightarrow> warnings m | Inr x \<Rightarrow> warnings m @ warnings (f x))"
  by (simp add: and_then_def outcome_def warnings_def split: prod.splits sum.splits)

lemma outcome_and_then_warn [simp]: "outcome (and_then (warn w) f) = outcome (f ())"
  by (simp add: outcome_and_then)

lemma warnings_and_then_warn [simp]: "warnings (and_then (warn w) f) = w # warnings (f ())"
  by (simp add: warnings_and_then)

lemma result_eqI: "warnings m = warnings m' \<Longrightarrow> outcome m = outcome m' \<Longrightarrow> m = m'"
  by (simp add: warnings_def outcome_def prod_eq_iff)

subsection \<open>Version negotiation\<close>

lemma clamp_bounds:
  fixes lo hi x :: "'a::linorder"
  assumes "lo \<le> hi"
  shows "lo \<le> max (min x hi) lo" and "max (min x hi) lo \<le> hi"
  using assms by auto

lemma outcome_update_cuda_version:
  assumes "map_of AVAILABLE_TORCH_VERSIONS torch_version = Some build"
  shows "outcome (update_cuda_version_with_available_torch_cuda_build cuda_version torch_version)
       = Inr (max (min cuda_version (max (fst (cuda build)) (snd (cuda build))))
                (min (fst (cuda build)) (snd (cuda build))))"
  using assms
  by (simp add: update_cuda_version_with_available_torch_cuda_build_def lookup_def Let_def)

text \<open>
  C1. For a torch version that is a key of the table and any installed CUDA version, the
  call returns a version, and this version lies between the minimum and the maximum of the
  CUDA versions the table gives for the torch version, in the order on strings.
\<close>

theorem negotiated_cuda_version_within_bounds:
  assumes "torch_version \<in> set (map fst AVAILABLE_TORCH_VERSIONS)"
  shows "\<exists>build v.
           map_of AVAILABLE_TORCH_VERSIONS torch_version = Some build
         \<and> outcome (update_cuda_version_with_available_torch_cuda_build cuda_version
                      torch_version) = Inr v
         \<and> min (fst (cuda build)) (snd (cuda build)) \<le> v
         \<and> v \<le> max (fst (cuda build)) (snd (cuda build))"
proof -
  from assms obtain build where b: "map_of AVAILABLE_TORCH_VERSIONS torch_version = Some build"
    by (metis map_of_eq_None_iff not_Some_eq set_map)
  let ?lo = "min (fst (cuda build)) (snd (cuda build))"
  let ?hi = "max (fst (cuda build)) (snd (cuda build))"
  have "?lo \<le> ?hi"
    by (simp add: min_le_iff_disj le_max_iff_disj)
  then have "?lo \<le> max (min cuda_version ?hi) ?lo" and "max (min cuda_version ?hi) ?lo \<le> ?hi"
    by (rule clamp_bounds)+
  with b outcome_update_cuda_version [OF b, of cuda_version] show ?thesis
    by blast
qed

theorem negotiated_cuda_version_within_bounds_witness:
  "''2.0.1'' \<in> set (map fst AVAILABLE_TORCH_VERSIONS)
   \<and> (\<exists>build v.
          map_of AVAILABLE_TORCH_VERSIONS ''2.0.1'' = Some build
        \<and> outcome (update_cuda_version_with_available_torch_cuda_build ''12.1'' ''2.0.1'') = Inr v
        \<and> min (fst (cuda build)) (snd (cuda build)) \<le> v
        \<and> v \<le> max (fst (cuda build)) (snd (cuda build)))"
proof -
  have k: "''2.0.1'' \<in> set (map fst AVAILABLE_TORCH_VERSIONS)"
    by (simp add: AVAILABLE_TORCH_VERSIONS_def)
  from k negotiated_cuda_version_within_bounds [OF k, of "''12.1''"] show ?thesis
    by (rule conjI)
qed

text \<open>The example of the docstring of \<open>get_hardware_suffix\<close>: 12.1 becomes 11.8.\<close>

lemma update_cuda_version_12_1:
  "update_cuda_version_with_available_torch_cuda_build ''12.1'' ''2.0.1''
     = ([CudaVersionClamped ''12.1'' ''11.7'' ''11.8'' ''11.8''], Inr ''11.8'')"
  by (simp add: update_cuda_version_with_available_torch_cuda_build_def lookup_def Let_def
      AVAILABLE_TORCH_VERSIONS_def and_then_def warn_def ok_def)

subsection \<open>The suffix of a CUDA version\<close>

lemma str_replace_dot: "str_replace ''.'' [] s = filter (\<lambda>c. c \<noteq> CHR ''.'') s"
  by (induction s) (simp_all add: startswith_def)

text \<open>
  C7. \<open>get_cuda_suffix\<close> is a function of the version string alone: its value is \<open>cu\<close>
  followed by the version without its dots, and equal versions give equal suffixes.
\<close>

theorem get_cuda_suffix_pure:
  "get_cuda_suffix cuda_version = ''cu'' @ filter (\<lambda>c. c \<noteq> CHR ''.'') cuda_version
   \<and> (\<forall>other. other = cuda_version \<longrightarrow> get_cuda_suffix other = get_cuda_suffix cuda_version)"
  by (simp add: get_cuda_suffix_def str_replace_dot)

theorem get_cuda_suffix_pure_witness:
  "get_cuda_suffix ''11.8'' = ''cu118''"
  using get_cuda_suffix_pure [of "''11.8''"] by simp

subsection \<open>The hardware suffix without CUDA\<close>

text \<open>
  C4. When \<open>get_cuda_version\<close> returns \<open>None\<close>, \<open>get_hardware_suffix\<close> returns \<open>cpu\<close>,
  whatever \<open>with_available_torch_build\<close> and \<open>torch_version\<close> are.
\<close>

theorem no_cuda_gives_cpu_suffix:
  assumes "outcome (get_cuda_version h) = Inr None"
  shows "outcome (get_hardware_suffix h with_available_torch_build torch_version) = Inr ''cpu''"
  using assms by (simp add: get_hardware_suffix_def outcome_and_then)

theorem no_cuda_gives_cpu_suffix_witness:
  "outcome (get_cuda_version linux_cpu) = Inr None
   \<and> outcome (get_hardware_suffix linux_cpu True (Some ''2.0.1'')) = Inr ''cpu''"
proof -
  have n: "outcome (get_cuda_version linux_cpu) = Inr None"
    by (simp add: get_cuda_version_def cuda_version_of_file_def cuda_version_of_nvcc_def
        linux_cpu_def)
  from n no_cuda_gives_cpu_suffix [OF n, of True "Some ''2.0.1''"] show ?thesis
    by (rule conjI)
qed

subsection \<open>parse_requirements\<close>

lemma str_requirement_torch: "unsafe_name r = ''torch'' \<Longrightarrow> str_requirement r \<noteq> []"
  by (auto simp add: str_requirement_def)

text \<open>
  What the loop leaves in its two variables: the text of the last requirement named
  \<open>torch\<close>, and the texts of the others in their order.
\<close>

lemma outcome_parse_loop:
  "outcome (parse_loop rs t other) =
     Inr (if \<exists>r\<in>set rs. unsafe_name r = ''torch''
          then Some (str_requirement (last (filter (\<lambda>r. unsafe_name r = ''torch'') rs)))
          else t,
          other @ map str_requirement (filter (\<lambda>r. unsafe_name r \<noteq> ''torch'') rs))"
proof (induction rs arbitrary: t other)
  case Nil
  show ?case by simp
next
  case (Cons r rs)
  show ?case
  proof (cases "unsafe_name r = ''torch''")
    case True
    then show ?thesis
      by (simp add: Cons.IH outcome_and_then filter_empty_conv)
  next
    case False
    then show ?thesis
      by (simp add: Cons.IH)
  qed
qed

lemma last_torch_truthy:
  assumes "\<exists>r\<in>set rs. unsafe_name r = ''torch''"
  shows "str_requirement (last (filter (\<lambda>r. unsafe_name r = ''torch'') rs)) \<noteq> []"
proof -
  let ?ts = "filter (\<lambda>r. unsafe_name r = ''torch'') rs"
  have "?ts \<noteq> []" using assms by (simp add: filter_empty_conv)
  then have "last ?ts \<in> set ?ts" by (rule last_in_set)
  then have "unsafe_name (last ?ts) = ''torch''" by simp
  then show ?thesis by (rule str_requirement_torch)
qed

lemma outcome_parse_requirements:
  "outcome (parse_requirements ks rs skip) =
     (if \<not> skip \<and> (\<forall>r\<in>set rs. unsafe_name r \<noteq> ''torch'') then Inl (ValueError MissingTorch)
      else Inr (if \<exists>r\<in>set rs. unsafe_name r = ''torch''
                then Some (str_requirement (last (filter (\<lambda>r. unsafe_name r = ''torch'') rs)))
                else None,
                list_of_set ks
                  (map str_requirement (filter (\<lambda>r. unsafe_name r \<noteq> ''torch'') rs))))"
proof (cases "\<exists>r\<in>set rs. unsafe_name r = ''torch''")
  case True
  then show ?thesis
    using last_torch_truthy [OF True]
    by (simp add: parse_requirements_def outcome_and_then outcome_parse_loop)
next
  case False
  then show ?thesis
    by (simp add: parse_requirements_def outcome_and_then outcome_parse_loop)
qed

text \<open>
  C3. \<open>parse_requirements\<close> raises the error of the missing torch requirement exactly when
  \<open>skip_torch\<close> is false and no requirement of the list is named \<open>torch\<close>.
\<close>

theorem missing_torch_iff:
  "outcome (parse_requirements set_order requirements skip_torch) = Inl (ValueError MissingTorch)
     \<longleftrightarrow> \<not> skip_torch \<and> (\<forall>r\<in>set requirements. unsafe_name r \<noteq> ''torch'')"
  by (simp add: outcome_parse_requirements)

theorem missing_torch_iff_witness:
  "outcome (parse_requirements [] [onnx_1_8_1] False) = Inl (ValueError MissingTorch)
   \<and> outcome (parse_requirements [] [onnx_1_8_1] True) \<noteq> Inl (ValueError MissingTorch)
   \<and> outcome (parse_requirements [] [onnx_1_8_1, torch_2_0_1] False)
       \<noteq> Inl (ValueError MissingTorch)"
  using missing_torch_iff [of "[]" "[onnx_1_8_1]" False]
    missing_torch_iff [of "[]" "[onnx_1_8_1]" True]
    missing_torch_iff [of "[]" "[onnx_1_8_1, torch_2_0_1]" False]
  by (simp add: onnx_1_8_1_def torch_2_0_1_def)

text \<open>The order of the set changes neither the elements nor how often each occurs.\<close>

lemma mset_insert_at: "mset (take n ys @ x # drop n ys) = add_mset x (mset ys)"
proof -
  have "mset ys = mset (take n ys @ drop n ys)"
    by (simp only: append_take_drop_id)
  then have "mset ys = mset (take n ys) + mset (drop n ys)"
    by (simp only: mset_append)
  then show ?thesis by simp
qed

lemma mset_arrange: "mset (arrange ks xs) = mset xs"
proof (induction ks xs rule: arrange.induct)
  case (3 k ks x xs)
  then show ?case by (simp add: Let_def mset_insert_at del: mset_append)
qed simp_all

lemma set_list_of_set: "set (list_of_set ks xs) = set xs"
proof -
  have "set (arrange ks (remdups xs)) = set (remdups xs)"
    by (rule mset_eq_setD) (rule mset_arrange)
  then show ?thesis by (simp add: list_of_set_def)
qed

lemma distinct_list_of_set: "distinct (list_of_set ks xs)"
proof -
  have "distinct (arrange ks (remdups xs)) = distinct (remdups xs)"
    by (rule mset_eq_imp_distinct_iff) (rule mset_arrange)
  then show ?thesis by (simp add: list_of_set_def)
qed

lemma count_list_1: "distinct xs \<Longrightarrow> x \<in> set xs \<Longrightarrow> count_list xs x = 1"
  by (induction xs) auto

text \<open>
  C10. When \<open>parse_requirements\<close> returns, the list of the other requirements has no
  duplicates, its elements are the texts of the requirements not named \<open>torch\<close>, and the
  text of each of these occurs in it exactly once, whatever the order of the set is.
\<close>

theorem other_requirements_unique:
  assumes "outcome (parse_requirements set_order requirements skip_torch) = Inr (torch, others)"
  shows "distinct others
       \<and> set others = str_requirement ` {r \<in> set requirements. unsafe_name r \<noteq> ''torch''}
       \<and> (\<forall>r\<in>set requirements.
             unsafe_name r \<noteq> ''torch'' \<longrightarrow> count_list others (str_requirement r) = 1)"
proof -
  have others:
    "others = list_of_set set_order
       (map str_requirement (filter (\<lambda>r. unsafe_name r \<noteq> ''torch'') requirements))"
    using assms by (simp add: outcome_parse_requirements split: if_splits)
  have d: "distinct others"
    unfolding others by (rule distinct_list_of_set)
  have s: "set others = str_requirement ` {r \<in> set requirements. unsafe_name r \<noteq> ''torch''}"
    unfolding others by (simp add: set_list_of_set)
  have "count_list others (str_requirement r) = 1"
    if "r \<in> set requirements" "unsafe_name r \<noteq> ''torch''" for r
  proof -
    have "str_requirement r \<in> set others" using that s by blast
    with d show ?thesis by (rule count_list_1)
  qed
  with d s show ?thesis by blast
qed

lemma parse_requirements_example:
  "parse_requirements [1] [onnx_1_8_1, torch_three, torch_bare, onnx_1_8_1] False
     = ([MultipleTorchSpecs], Inr (Some ''torch'', [''onnx>=1.8.1'']))"
  by (simp add: parse_requirements_def onnx_1_8_1_def torch_three_def torch_bare_def
      str_requirement_def list_of_set_def and_then_def warn_def ok_def)

theorem other_requirements_unique_witness:
  "outcome (parse_requirements [1] [onnx_1_8_1, torch_three, torch_bare, onnx_1_8_1] False)
     = Inr (Some ''torch'', [''onnx>=1.8.1''])
   \<and> distinct [''onnx>=1.8.1'']
   \<and> count_list [''onnx>=1.8.1''] (str_requirement onnx_1_8_1) = 1"
proof -
  have r: "outcome (parse_requirements [1] [onnx_1_8_1, torch_three, torch_bare, onnx_1_8_1] False)
     = Inr (Some ''torch'', [''onnx>=1.8.1''])"
    by (simp only: parse_requirements_example outcome_def snd_conv)
  have "unsafe_name onnx_1_8_1 \<noteq> ''torch''"
    by (simp add: onnx_1_8_1_def)
  with other_requirements_unique [OF r] r show ?thesis
    by simp
qed

subsection \<open>What the detection of CUDA can raise\<close>

text \<open>
  \<open>get_cuda_version\<close> raises only what comes out of reading \<open>version.json\<close> or out of
  the \<open>nvcc\<close> check, where an \<open>OSError\<close> is caught.
\<close>

lemma outcome_dict_get_error: "outcome (dict_get d k dflt) = Inl e \<Longrightarrow> e = AttributeError"
  by (cases d) (simp_all add: dict_get_def)

lemma outcome_cuda_version_of_file_error:
  assumes "outcome (cuda_version_of_file h) = Inl e"
  shows "e = AttributeError \<or> (\<exists>m. e = LibraryError m)"
proof (cases "cuda_home_exists h")
  case False
  with assms show ?thesis by (simp add: cuda_version_of_file_def)
next
  case True
  show ?thesis
  proof (cases "version_json h")
    case None
    with True assms show ?thesis by (simp add: cuda_version_of_file_def)
  next
    case (Some loaded)
    show ?thesis
    proof (cases loaded)
      case (Inl m)
      with True Some assms show ?thesis by (auto simp add: cuda_version_of_file_def)
    next
      case (Inr data)
      with True Some assms show ?thesis
        by (auto simp add: cuda_version_of_file_def outcome_and_then
            split: sum.splits json.splits dest: outcome_dict_get_error)
    qed
  qed
qed

lemma outcome_cuda_version_of_nvcc_error:
  "outcome (cuda_version_of_nvcc h) = Inl e \<Longrightarrow> \<exists>m. e = LibraryError m"
  by (auto simp add: cuda_version_of_nvcc_def split: nvcc_outcome.splits option.splits)

lemma cuda_version_of_nvcc_os_error:
  "nvcc_version h = NvccOSError \<Longrightarrow> cuda_version_of_nvcc h = ([CudaVersionNotFound], Inr None)"
  by (simp add: cuda_version_of_nvcc_def and_then_def warn_def ok_def)

lemma outcome_get_cuda_version_error:
  assumes "outcome (get_cuda_version h) = Inl e"
  shows "e = AttributeError \<or> (\<exists>m. e = LibraryError m)"
proof (cases "outcome (cuda_version_of_file h)")
  case (Inl e')
  with assms have "e' = e" by (simp add: get_cuda_version_def outcome_and_then)
  with Inl show ?thesis by (simp add: outcome_cuda_version_of_file_error)
next
  case (Inr found)
  with assms have "outcome (cuda_version_of_nvcc h) = Inl e"
    by (simp add: get_cuda_version_def outcome_and_then split: option.splits)
  then show ?thesis
    using outcome_cuda_version_of_nvcc_error by blast
qed

lemma get_hardware_suffix_nonempty:
  assumes "outcome (get_hardware_suffix h b tv) = Inr s"
  shows "s \<noteq> []"
  using assms
  by (auto simp add: get_hardware_suffix_def outcome_and_then get_cuda_suffix_def
      split: sum.splits if_splits)

lemma outcome_get_hardware_suffix_error:
  assumes "outcome (get_hardware_suffix h b (Some tv)) = Inl e"
  shows "e = AttributeError \<or> (\<exists>m. e = LibraryError m)
       \<or> (e = KeyError tv \<and> map_of AVAILABLE_TORCH_VERSIONS tv = None)"
proof (cases "outcome (get_cuda_version h)")
  case (Inl e')
  with assms have "e' = e" by (simp add: get_hardware_suffix_def outcome_and_then)
  with Inl show ?thesis using outcome_get_cuda_version_error by blast
next
  case (Inr cv)
  with assms show ?thesis
    by (auto simp add: get_hardware_suffix_def outcome_and_then lookup_def Let_def
        update_cuda_version_with_available_torch_cuda_build_def
        split: sum.splits if_splits option.splits)
qed

lemma outcome_get_hardware_suffix_ok:
  assumes "outcome (get_cuda_version h) = Inr cv"
    and "map_of AVAILABLE_TORCH_VERSIONS tv = Some build"
  shows "\<exists>s. outcome (get_hardware_suffix h b (Some tv)) = Inr s"
  using assms
  by (simp add: get_hardware_suffix_def outcome_and_then outcome_update_cuda_version)

lemma outcome_get_hardware_suffix_raises:
  assumes "outcome (get_cuda_version h) = Inl e"
  shows "outcome (get_hardware_suffix h b tv) = Inl e"
  using assms by (simp add: get_hardware_suffix_def outcome_and_then)

lemma get_cuda_version_linux_nvcc_11_8: "get_cuda_version linux_nvcc_11_8 = ok (Some ''11.8'')"
  by (simp add: get_cuda_version_def cuda_version_of_file_def cuda_version_of_nvcc_def
      linux_nvcc_11_8_def)

lemma get_cuda_version_linux_cpu: "get_cuda_version linux_cpu = ok None"
  by (simp add: get_cuda_version_def cuda_version_of_file_def cuda_version_of_nvcc_def
      linux_cpu_def)

subsection \<open>add_hardware_suffix_to_torch\<close>

text \<open>
  With a suffix given, the loop never asks the host; without one, it asks once, for the
  version of the first spec.
\<close>

lemma suffix_loop_given:
  assumes "s \<noteq> []"
  shows "suffix_loop h b sp (Some s) upd = ok (upd @ map (updated_spec s) sp)"
  using assms
proof (induction sp arbitrary: upd)
  case Nil
  show ?case by simp
next
  case (Cons p sp)
  obtain operator version where p: "p = (operator, version)" by (cases p)
  show ?case
    unfolding p using Cons.prems by (simp add: Cons.IH)
qed

lemma outcome_suffix_loop_detect:
  assumes "\<not> truthy hs" and "sp \<noteq> []"
  shows "outcome (suffix_loop h b sp hs []) =
     (case outcome (get_hardware_suffix h b (Some (snd (hd sp)))) of
        Inl e \<Rightarrow> Inl e
      | Inr s \<Rightarrow> Inr (map (updated_spec s) sp))"
proof -
  from assms(2) obtain operator version rest where sp: "sp = (operator, version) # rest"
    by (cases sp) auto
  show ?thesis
  proof (cases "outcome (get_hardware_suffix h b (Some version))")
    case (Inl e)
    with assms(1) show ?thesis by (simp add: sp outcome_and_then)
  next
    case (Inr s)
    then have "s \<noteq> []" by (rule get_hardware_suffix_nonempty)
    with Inr assms(1) show ?thesis
      by (simp add: sp outcome_and_then suffix_loop_given)
  qed
qed

lemma outcome_shape:
  "outcome (case l of
              [] \<Rightarrow> ok a
            | [s0] \<Rightarrow> ok (f s0)
            | [s0, s1] \<Rightarrow> ok (g s0 s1)
            | _ \<Rightarrow> raise (ValueError (MalformedSpecs l))) =
     (if 2 < length l then Inl (ValueError (MalformedSpecs l))
      else Inr (case l of [] \<Rightarrow> a | [s0] \<Rightarrow> f s0 | [s0, s1] \<Rightarrow> g s0 s1 | _ \<Rightarrow> a))"
  by (simp split: list.splits)

lemma outcome_add_given:
  assumes "s \<noteq> []"
  shows "outcome (add_hardware_suffix_to_torch h r (Some s) b) =
     (if 2 < length (specs r)
      then Inl (ValueError (MalformedSpecs (map (updated_spec s) (specs r))))
      else Inr (case map (updated_spec s) (specs r) of
                  [] \<Rightarrow> []
                | [s0] \<Rightarrow> unsafe_name r @ s0
                | [s0, s1] \<Rightarrow> unsafe_name r @ s0 @ '', '' @ s1
                | _ \<Rightarrow> []))"
  using assms
  by (simp add: add_hardware_suffix_to_torch_def suffix_loop_given outcome_shape)

lemma warnings_add_given:
  assumes "s \<noteq> []"
  shows "warnings (add_hardware_suffix_to_torch h r (Some s) b) = []"
  using assms
  by (simp add: add_hardware_suffix_to_torch_def suffix_loop_given split: list.splits)

lemma outcome_add_detect:
  assumes "\<not> truthy hs" and "specs r \<noteq> []"
  shows "outcome (add_hardware_suffix_to_torch h r hs b) =
     (case outcome (get_hardware_suffix h b (Some (snd (hd (specs r))))) of
        Inl e \<Rightarrow> Inl e
      | Inr s \<Rightarrow>
          if 2 < length (specs r)
          then Inl (ValueError (MalformedSpecs (map (updated_spec s) (specs r))))
          else Inr (case map (updated_spec s) (specs r) of
                      [] \<Rightarrow> []
                    | [s0] \<Rightarrow> unsafe_name r @ s0
                    | [s0, s1] \<Rightarrow> unsafe_name r @ s0 @ '', '' @ s1
                    | _ \<Rightarrow> []))"
  using assms
  by (simp add: add_hardware_suffix_to_torch_def outcome_and_then outcome_suffix_loop_detect
      outcome_shape split: sum.splits)

text \<open>
  The docstring of \<open>update_cuda_version_with_available_torch_cuda_build\<close> gives
  \<open>("11.7", "1.13.0")\<close> as an example with the result \<open>"11.7"\<close>. The table has no
  entry for 1.13.0, and the function raises a \<open>KeyError\<close> there.
\<close>

lemma update_cuda_version_1_13_0:
  "update_cuda_version_with_available_torch_cuda_build ''11.7'' ''1.13.0''
     = ([], Inl (KeyError ''1.13.0''))"
  by (simp add: update_cuda_version_with_available_torch_cuda_build_def lookup_def
      AVAILABLE_TORCH_VERSIONS_def raise_def)

text \<open>
  \<open>get_torch_install_args\<close> replaces a version outside the table before it asks for the
  hardware suffix (lines 382 to 387). The loop of \<open>add_hardware_suffix_to_torch\<close> asks
  without this guard: with no suffix given, \<open>with_available_torch_build\<close> set and CUDA
  found, a first spec whose version is outside the table ends the call with a
  \<open>KeyError\<close>, however many specs there are.
\<close>

lemma unguarded_lookup_raises_key_error:
  assumes "\<not> truthy hardware_suffix"
    and "specs r = (operator, version) # rest"
    and "outcome (get_cuda_version h) = Inr (Some cv)" and "cv \<noteq> []"
    and "version \<notin> set (map fst AVAILABLE_TORCH_VERSIONS)"
  shows "outcome (add_hardware_suffix_to_torch h r hardware_suffix True)
           = Inl (KeyError version)"
proof -
  from assms(5) have "map_of AVAILABLE_TORCH_VERSIONS version = None"
    by (simp add: map_of_eq_None_iff)
  with assms(3,4)
  have "outcome (get_hardware_suffix h True (Some version)) = Inl (KeyError version)"
    by (simp add: get_hardware_suffix_def outcome_and_then lookup_def
        update_cuda_version_with_available_torch_cuda_build_def)
  moreover have "specs r \<noteq> []" and "snd (hd (specs r)) = version"
    using assms(2) by simp_all
  ultimately show ?thesis
    using outcome_add_detect [OF assms(1), of r h True] by simp
qed

text \<open>
  Where the error of the malformed specs is raised and where not: with more than two specs
  the call never gives a value, and it raises this error whenever a non-empty suffix is given
  or the suffix for the version of the first spec is found; with at most two specs it
  never raises it.
\<close>

lemma malformed_specs_error_cases:
  "(2 < length (specs r) \<longrightarrow>
      (\<exists>e. outcome (add_hardware_suffix_to_torch h r hardware_suffix b) = Inl e))
   \<and> (2 < length (specs r)
        \<and> (truthy hardware_suffix
           \<or> (\<exists>s. outcome (get_hardware_suffix h b (Some (snd (hd (specs r))))) = Inr s)) \<longrightarrow>
      (\<exists>ms. length ms = length (specs r)
          \<and> outcome (add_hardware_suffix_to_torch h r hardware_suffix b)
              = Inl (ValueError (MalformedSpecs ms))))
   \<and> (length (specs r) \<le> 2 \<longrightarrow>
      (\<forall>ms. outcome (add_hardware_suffix_to_torch h r hardware_suffix b)
              \<noteq> Inl (ValueError (MalformedSpecs ms))))"
proof (cases "truthy hardware_suffix")
  case True
  then obtain s where s: "hardware_suffix = Some s" "s \<noteq> []"
    by (cases hardware_suffix) auto
  show ?thesis
    unfolding s(1) by (simp add: outcome_add_given [OF s(2)])
next
  case False
  show ?thesis
  proof (cases "specs r = []")
    case True
    then show ?thesis
      by (simp add: add_hardware_suffix_to_torch_def)
  next
    case nonempty: False
    let ?d = "outcome (get_hardware_suffix h b (Some (snd (hd (specs r)))))"
    show ?thesis
    proof (cases ?d)
      case (Inl e)
      from outcome_get_hardware_suffix_error [OF Inl]
      have "\<forall>ms. e \<noteq> ValueError (MalformedSpecs ms)" by auto
      with Inl False show ?thesis
        by (simp add: outcome_add_detect [OF False nonempty])
    next
      case (Inr s)
      with False show ?thesis
        by (simp add: outcome_add_detect [OF False nonempty])
    qed
  qed
qed

text \<open>
  C2. A requirement with more than two specs is to end in the error of the malformed
  specs; the docstring of the function names this \<open>ValueError\<close> for more than two version
  criteria. The code does not do so for the requirement \<open>torch>=1.13.0,<2.2.0,!=2.0.0\<close>
  with no suffix given and \<open>with_available_torch_build\<close> set on a host with CUDA 11.8: the
  first pass of the loop looks up 1.13.0 in the table and the call ends with
  \<open>KeyError('1.13.0')\<close>. With the suffix \<open>cu118\<close> given, the same requirement does end in
  the error of the malformed specs.
\<close>

theorem three_specs_end_in_key_error:
  "2 < length (specs torch_three)
   \<and> outcome (add_hardware_suffix_to_torch linux_nvcc_11_8 torch_three None True)
       = Inl (KeyError ''1.13.0'')
   \<and> outcome (add_hardware_suffix_to_torch linux_nvcc_11_8 torch_three (Some ''cu118'') True)
       = Inl (ValueError (MalformedSpecs [''>=1.13.0+cu118'', ''<2.2.0'', ''!=2.0.0+cu118'']))"
  by (simp add: add_hardware_suffix_to_torch_def torch_three_def get_hardware_suffix_def
      get_cuda_version_linux_nvcc_11_8 update_cuda_version_with_available_torch_cuda_build_def
      lookup_def AVAILABLE_TORCH_VERSIONS_def updated_spec_def startswith_any_def
      startswith_def)

text \<open>
  C6, as stated, fails: for \<open>torch==2.1.1\<close> and the suffix \<open>cu118\<close> the result is
  \<open>torch==2.1.1\<close>, without the suffix.
\<close>

theorem suffix_appended_counterexample:
  "specs torch_2_1_1 = [(''=='', ''2.1.1'')]
   \<and> add_hardware_suffix_to_torch linux_cpu torch_2_1_1 (Some ''cu118'') True
       = ([], Inr ''torch==2.1.1'')"
  by (simp add: add_hardware_suffix_to_torch_def torch_2_1_1_def updated_spec_def
      startswith_any_def startswith_def ok_def)

text \<open>
  C6, amended. For a non-empty suffix and a requirement with one or two specs, the result is
  the name followed by the specs, separated by a comma and a space, where \<open>+\<close> and the
  suffix are appended to every version that does not start with \<open>2.1\<close> or \<open>2.2\<close>, and a
  version that starts with \<open>2.1\<close> or \<open>2.2\<close> is left as it is; no warning is emitted.
\<close>

theorem suffix_appended_unless_2_1_or_2_2:
  assumes "hardware_suffix \<noteq> []"
  shows "(specs r = [(o1, v1)] \<longrightarrow>
           add_hardware_suffix_to_torch h r (Some hardware_suffix) b =
             ([], Inr (unsafe_name r @ o1 @
                  (if startswith_any v1 [''2.1'', ''2.2''] then v1
                   else v1 @ ''+'' @ hardware_suffix))))
       \<and> (specs r = [(o1, v1), (o2, v2)] \<longrightarrow>
           add_hardware_suffix_to_torch h r (Some hardware_suffix) b =
             ([], Inr (unsafe_name r @ o1 @
                  (if startswith_any v1 [''2.1'', ''2.2''] then v1
                   else v1 @ ''+'' @ hardware_suffix)
                  @ '', '' @ o2 @
                  (if startswith_any v2 [''2.1'', ''2.2''] then v2
                   else v2 @ ''+'' @ hardware_suffix))))"
proof -
  have "add_hardware_suffix_to_torch h r (Some hardware_suffix) b =
     (case map (updated_spec hardware_suffix) (specs r) of
        [] \<Rightarrow> ok []
      | [s0] \<Rightarrow> ok (unsafe_name r @ s0)
      | [s0, s1] \<Rightarrow> ok (unsafe_name r @ s0 @ '', '' @ s1)
      | _ \<Rightarrow> raise (ValueError (MalformedSpecs (map (updated_spec hardware_suffix) (specs r)))))"
    using assms by (simp add: add_hardware_suffix_to_torch_def suffix_loop_given)
  then show ?thesis
    by (simp add: updated_spec_def ok_def)
qed

theorem suffix_appended_unless_2_1_or_2_2_witness:
  "''cu118'' \<noteq> [] \<and> specs torch_2_0_1 = [(''=='', ''2.0.1'')]
   \<and> add_hardware_suffix_to_torch linux_cpu torch_2_0_1 (Some ''cu118'') True
       = ([], Inr ''torch==2.0.1+cu118'')"
proof -
  have s: "''cu118'' \<noteq> []" by simp
  have sp: "specs torch_2_0_1 = [(''=='', ''2.0.1'')]" by (simp add: torch_2_0_1_def)
  from suffix_appended_unless_2_1_or_2_2
      [OF s, where r = torch_2_0_1 and ?o1.0 = "''==''" and ?v1.0 = "''2.0.1''"
         and h = linux_cpu and b = True] sp
  have "add_hardware_suffix_to_torch linux_cpu torch_2_0_1 (Some ''cu118'') True
       = ([], Inr (unsafe_name torch_2_0_1 @ ''=='' @
                  (if startswith_any ''2.0.1'' [''2.1'', ''2.2''] then ''2.0.1''
                   else ''2.0.1'' @ ''+'' @ ''cu118'')))"
    by blast
  then show ?thesis
    by (simp add: torch_2_0_1_def startswith_any_def startswith_def)
qed

subsection \<open>get_torch_install_args\<close>

text \<open>The spec that line 381 reads exists.\<close>

lemma first_eq_idx_range: "first_eq_idx sp i = Some j \<Longrightarrow> i \<le> j \<and> j < i + length sp"
proof (induction sp i rule: first_eq_idx.induct)
  case (1 i)
  then show ?case by simp
next
  case (2 operator version rest i)
  then show ?case by (cases "CHR ''='' \<in> set operator") auto
qed

lemma select_spec_idx_in_range: "sp \<noteq> [] \<Longrightarrow> select_spec_idx sp < length sp"
  using first_eq_idx_range [of sp 0]
  by (auto simp add: select_spec_idx_def split: option.splits)

lemma max_key_table: "max_key AVAILABLE_TORCH_VERSIONS = ''2.2.0''"
  by (simp add: max_key_def AVAILABLE_TORCH_VERSIONS_def max_def)

lemma lookup_2_2_0:
  "lookup AVAILABLE_TORCH_VERSIONS ''2.2.0''
     = ok \<lparr>torchvision = ''0.16.2'', cuda = (''11.8'', ''12.1'')\<rparr>"
  by (simp add: lookup_def AVAILABLE_TORCH_VERSIONS_def)

lemma resolve_arg:
  assumes "arg = Req r \<or> (arg = Str s \<and> Requirement_parse s = Inr r)"
  shows "parse_if_str Requirement_parse arg = ok r"
  using assms by (auto simp add: parse_if_str_def)

lemma map_of_2_2_0:
  "map_of AVAILABLE_TORCH_VERSIONS ''2.2.0''
     = Some \<lparr>torchvision = ''0.16.2'', cuda = (''11.8'', ''12.1'')\<rparr>"
  by (simp add: AVAILABLE_TORCH_VERSIONS_def)

lemma outcome_linux_args:
  "outcome
     (and_then (get_hardware_suffix h True (Some ''2.2.0'')) (\<lambda>hardware_suffix.
      and_then (add_hardware_suffix_to_torch h r (Some hardware_suffix) True) (\<lambda>torch_version.
        ok (args hardware_suffix torch_version)))) =
   (case outcome (get_hardware_suffix h True (Some ''2.2.0'')) of
      Inl e \<Rightarrow> Inl e
    | Inr hardware_suffix \<Rightarrow>
        (case outcome (add_hardware_suffix_to_torch h r (Some hardware_suffix) True) of
           Inl e \<Rightarrow> Inl e
         | Inr torch_version \<Rightarrow> Inr (args hardware_suffix torch_version)))"
  by (simp add: outcome_and_then split: sum.splits)

text \<open>
  C8. For a requirement without specs, given as such or as a text that parses to it,
  \<open>get_torch_install_args\<close> returns the list of its one text, on every host: no index URL,
  no torchvision, no warning, no error.
\<close>

theorem no_specs_returns_requirement:
  assumes "specs r = []"
    and "arg = Req r \<or> (arg = Str s \<and> Requirement_parse s = Inr r)"
  shows "get_torch_install_args Requirement_parse h arg = ([], Inr [str_requirement r])"
  using assms(1)
  by (simp add: get_torch_install_args_def resolve_arg [of arg r s Requirement_parse, OF assms(2)] ok_def)

theorem no_specs_returns_requirement_witness:
  "specs torch_bare = []
   \<and> get_torch_install_args parse_nothing freebsd_cpu (Req torch_bare) = ([], Inr [''torch''])
   \<and> get_torch_install_args parse_nothing linux_nvcc_11_8 (Req torch_bare) = ([], Inr [''torch''])"
proof -
  have sp: "specs torch_bare = []" by (simp add: torch_bare_def)
  have arg: "Req torch_bare = Req torch_bare
      \<or> (Req torch_bare = Str [] \<and> parse_nothing [] = Inr torch_bare)"
    by simp
  from no_specs_returns_requirement
      [where r = torch_bare and arg = "Req torch_bare" and s = "[]"
         and Requirement_parse = parse_nothing, OF sp arg]
  have "get_torch_install_args parse_nothing h (Req torch_bare)
          = ([], Inr [str_requirement torch_bare])" for h .
  with sp show ?thesis by (simp add: torch_bare_def str_requirement_def)
qed

text \<open>
  C5, as stated, fails: on a FreeBSD host the requirement \<open>torch\<close>, which has no specs, is
  returned by line 375 before the operating system is looked at.
\<close>

theorem unsupported_os_counterexample:
  "platform_system freebsd_cpu \<notin> set [''Linux'', ''Windows'', ''macos'', ''Darwin'']
   \<and> get_torch_install_args parse_nothing freebsd_cpu (Req torch_bare) = ([], Inr [''torch''])"
  by (simp add: get_torch_install_args_def parse_if_str_def freebsd_cpu_def torch_bare_def
      str_requirement_def ok_def)

text \<open>
  C5, amended. For a requirement with at least one spec, given as such or as a text that
  parses to it, on a host whose \<open>platform.system()\<close> is none of \<open>Linux\<close>, \<open>Windows\<close>,
  \<open>macos\<close> and \<open>Darwin\<close>, \<open>get_torch_install_args\<close> raises the \<open>RuntimeError\<close> of the
  unsupported operating system.
\<close>

theorem unsupported_os_with_specs:
  assumes "specs r \<noteq> []"
    and "platform_system h \<notin> set [''Linux'', ''Windows'', ''macos'', ''Darwin'']"
    and "arg = Req r \<or> (arg = Str s \<and> Requirement_parse s = Inr r)"
  shows "outcome (get_torch_install_args Requirement_parse h arg)
           = Inl (RuntimeError (''Unsupported OS: '' @ platform_system h))"
proof -
  obtain operator version
    where sel: "specs r ! select_spec_idx (specs r) = (operator, version)"
    by (cases "specs r ! select_spec_idx (specs r)")
  from assms(2) have os: "platform_system h \<noteq> ''Linux''" "platform_system h \<noteq> ''Windows''"
    "platform_system h \<noteq> ''macos''" "platform_system h \<noteq> ''Darwin''"
    by simp_all
  show ?thesis
    using assms(1) os
    by (simp add: get_torch_install_args_def resolve_arg [of arg r s Requirement_parse, OF assms(3)] sel outcome_and_then)
qed

theorem unsupported_os_with_specs_witness:
  "specs torch_2_0_1 \<noteq> []
   \<and> platform_system freebsd_cpu \<notin> set [''Linux'', ''Windows'', ''macos'', ''Darwin'']
   \<and> outcome (get_torch_install_args parse_nothing freebsd_cpu (Req torch_2_0_1))
       = Inl (RuntimeError ''Unsupported OS: FreeBSD'')"
proof -
  have sp: "specs torch_2_0_1 \<noteq> []" by (simp add: torch_2_0_1_def)
  have os: "platform_system freebsd_cpu \<notin> set [''Linux'', ''Windows'', ''macos'', ''Darwin'']"
    by (simp add: freebsd_cpu_def)
  have arg: "Req torch_2_0_1 = Req torch_2_0_1
      \<or> (Req torch_2_0_1 = Str [] \<and> parse_nothing [] = Inr torch_2_0_1)"
    by simp
  from unsupported_os_with_specs
      [where r = torch_2_0_1 and h = freebsd_cpu and arg = "Req torch_2_0_1" and s = "[]"
         and Requirement_parse = parse_nothing, OF sp os arg]
  have "outcome (get_torch_install_args parse_nothing freebsd_cpu (Req torch_2_0_1))
       = Inl (RuntimeError (''Unsupported OS: '' @ platform_system freebsd_cpu))" .
  with sp os show ?thesis by (simp add: freebsd_cpu_def)
qed

text \<open>
  C9, as stated, fails: the function can still fail when the version is not a key. On a
  FreeBSD host the requirement \<open>torch==1.13.0\<close> gives the warning and then the
  \<open>RuntimeError\<close> of the unsupported operating system.
\<close>

theorem unknown_version_counterexample:
  "specs torch_1_13_0 \<noteq> []
   \<and> snd (specs torch_1_13_0 ! select_spec_idx (specs torch_1_13_0))
       \<notin> set (map fst AVAILABLE_TORCH_VERSIONS)
   \<and> get_torch_install_args parse_nothing freebsd_cpu (Req torch_1_13_0) =
       ([TorchVersionSelected ''2.2.0''], Inl (RuntimeError ''Unsupported OS: FreeBSD''))"
  by (simp add: get_torch_install_args_def parse_if_str_def torch_1_13_0_def
      select_spec_idx_def AVAILABLE_TORCH_VERSIONS_def max_key_def max_def freebsd_cpu_def
      and_then_def warn_def raise_def ok_def)

text \<open>
  C9, amended. When the version of the selected spec is not a key of the table, the missing
  key raises nothing: the function warns once and goes on with the greatest key, \<open>2.2.0\<close>,
  as the version for the hardware suffix and for torchvision, which is then \<open>0.16.2\<close>. What
  follows can fail as it does for a version of the table. The function never raises a
  \<open>KeyError\<close>, and it returns exactly when the operating system is \<open>macos\<close> or
  \<open>Darwin\<close>, or is \<open>Linux\<close> or \<open>Windows\<close> with a CUDA detection that returns and at
  most two specs.
\<close>

theorem unknown_version_replaced_by_max_key:
  assumes "specs r \<noteq> []"
    and "snd (specs r ! select_spec_idx (specs r)) \<notin> set (map fst AVAILABLE_TORCH_VERSIONS)"
    and "arg = Req r \<or> (arg = Str s \<and> Requirement_parse s = Inr r)"
  shows "max_key AVAILABLE_TORCH_VERSIONS = ''2.2.0''
     \<and> get_torch_install_args Requirement_parse h arg =
         and_then (warn (TorchVersionSelected ''2.2.0'')) (\<lambda>_.
           if platform_system h \<in> set [''Linux'', ''Windows''] then
             and_then (get_hardware_suffix h True (Some ''2.2.0'')) (\<lambda>hardware_suffix.
             and_then (add_hardware_suffix_to_torch h r (Some hardware_suffix) True)
               (\<lambda>torch_version.
                  ok [''--extra-index-url'',
                      ''https://download.pytorch.org/whl/'' @ hardware_suffix,
                      torch_version,
                      ''torchvision'' @ fst (specs r ! select_spec_idx (specs r)) @ ''0.16.2'']))
           else if platform_system h \<in> set [''macos'', ''Darwin''] then ok [str_requirement r]
           else raise (RuntimeError (''Unsupported OS: '' @ platform_system h)))
     \<and> (\<forall>k. outcome (get_torch_install_args Requirement_parse h arg) \<noteq> Inl (KeyError k))
     \<and> ((\<exists>args. outcome (get_torch_install_args Requirement_parse h arg) = Inr args)
          \<longleftrightarrow> platform_system h \<in> set [''macos'', ''Darwin'']
              \<or> (platform_system h \<in> set [''Linux'', ''Windows'']
                  \<and> (\<exists>cv. outcome (get_cuda_version h) = Inr cv)
                  \<and> length (specs r) \<le> 2))"
proof -
  obtain operator version
    where sel: "specs r ! select_spec_idx (specs r) = (operator, version)"
    by (cases "specs r ! select_spec_idx (specs r)")
  from assms(2) have unknown: "version \<notin> set (map fst AVAILABLE_TORCH_VERSIONS)"
    by (simp add: sel)
  let ?call = "get_torch_install_args Requirement_parse h arg"
  let ?suffix = "get_hardware_suffix h True (Some ''2.2.0'')"
  have eq: "?call =
         and_then (warn (TorchVersionSelected ''2.2.0'')) (\<lambda>_.
           if platform_system h \<in> set [''Linux'', ''Windows''] then
             and_then ?suffix (\<lambda>hardware_suffix.
             and_then (add_hardware_suffix_to_torch h r (Some hardware_suffix) True)
               (\<lambda>torch_version.
                  ok [''--extra-index-url'',
                      ''https://download.pytorch.org/whl/'' @ hardware_suffix,
                      torch_version,
                      ''torchvision'' @ fst (specs r ! select_spec_idx (specs r)) @ ''0.16.2'']))
           else if platform_system h \<in> set [''macos'', ''Darwin''] then ok [str_requirement r]
           else raise (RuntimeError (''Unsupported OS: '' @ platform_system h)))"
    using assms(1) unknown
    by (simp add: get_torch_install_args_def resolve_arg [of arg r s Requirement_parse, OF assms(3)]
        sel max_key_table lookup_2_2_0 startswith_def Let_def)
  have suffix_cases:
    "(\<exists>e. outcome ?suffix = Inl e \<and> (\<forall>k. e \<noteq> KeyError k)
          \<and> outcome (get_cuda_version h) = Inl e)
     \<or> (\<exists>hs cv. outcome ?suffix = Inr hs \<and> hs \<noteq> [] \<and> outcome (get_cuda_version h) = Inr cv)"
  proof (cases "outcome (get_cuda_version h)")
    case (Inl e)
    then have raised: "outcome ?suffix = Inl e"
      by (rule outcome_get_hardware_suffix_raises)
    from outcome_get_hardware_suffix_error [OF raised] have "\<forall>k. e \<noteq> KeyError k"
      by (auto simp add: map_of_2_2_0)
    with raised Inl show ?thesis by simp
  next
    case (Inr cv)
    from outcome_get_hardware_suffix_ok [OF Inr map_of_2_2_0]
    obtain hs where hs: "outcome ?suffix = Inr hs"
      by blast
    then have "hs \<noteq> []" by (rule get_hardware_suffix_nonempty)
    with hs Inr show ?thesis by simp
  qed
  have no_key: "outcome ?call \<noteq> Inl (KeyError k)" for k
    using suffix_cases
    by (auto simp add: eq outcome_linux_args outcome_add_given split: if_splits)
  have returns: "(\<exists>args. outcome ?call = Inr args)
          \<longleftrightarrow> platform_system h \<in> set [''macos'', ''Darwin'']
              \<or> (platform_system h \<in> set [''Linux'', ''Windows'']
                  \<and> (\<exists>cv. outcome (get_cuda_version h) = Inr cv)
                  \<and> length (specs r) \<le> 2)"
  proof (cases "platform_system h \<in> set [''Linux'', ''Windows'']")
    case False
    then show ?thesis
      by (simp add: eq)
  next
    case True
    then have not_mac: "platform_system h \<notin> set [''macos'', ''Darwin'']"
      by auto
    from True have out: "outcome ?call =
        (case outcome ?suffix of
           Inl e \<Rightarrow> Inl e
         | Inr hardware_suffix \<Rightarrow>
             (case outcome (add_hardware_suffix_to_torch h r (Some hardware_suffix) True) of
                Inl e \<Rightarrow> Inl e
              | Inr torch_version \<Rightarrow>
                  Inr [''--extra-index-url'',
                       ''https://download.pytorch.org/whl/'' @ hardware_suffix,
                       torch_version,
                       ''torchvision'' @ fst (specs r ! select_spec_idx (specs r))
                         @ ''0.16.2'']))"
      unfolding eq by (simp only: outcome_and_then_warn if_True outcome_linux_args)
    from suffix_cases show ?thesis
    proof (elim disjE exE conjE)
      fix e
      assume "outcome ?suffix = Inl e" and "outcome (get_cuda_version h) = Inl e"
      with True not_mac show ?thesis
        by (simp add: out)
    next
      fix hs cv
      assume "outcome ?suffix = Inr hs" and "hs \<noteq> []"
        and "outcome (get_cuda_version h) = Inr cv"
      with True not_mac show ?thesis
        by (simp add: out outcome_add_given)
    qed
  qed
  show ?thesis
  proof (intro conjI allI)
    show "max_key AVAILABLE_TORCH_VERSIONS = ''2.2.0''"
      by (rule max_key_table)
    show "?call =
         and_then (warn (TorchVersionSelected ''2.2.0'')) (\<lambda>_.
           if platform_system h \<in> set [''Linux'', ''Windows''] then
             and_then (get_hardware_suffix h True (Some ''2.2.0'')) (\<lambda>hardware_suffix.
             and_then (add_hardware_suffix_to_torch h r (Some hardware_suffix) True)
               (\<lambda>torch_version.
                  ok [''--extra-index-url'',
                      ''https://download.pytorch.org/whl/'' @ hardware_suffix,
                      torch_version,
                      ''torchvision'' @ fst (specs r ! select_spec_idx (specs r)) @ ''0.16.2'']))
           else if platform_system h \<in> set [''macos'', ''Darwin''] then ok [str_requirement r]
           else raise (RuntimeError (''Unsupported OS: '' @ platform_system h)))"
      by (rule eq)
    show "outcome ?call \<noteq> Inl (KeyError k)" for k
      by (rule no_key)
    show "(\<exists>args. outcome ?call = Inr args)
          \<longleftrightarrow> platform_system h \<in> set [''macos'', ''Darwin'']
              \<or> (platform_system h \<in> set [''Linux'', ''Windows'']
                  \<and> (\<exists>cv. outcome (get_cuda_version h) = Inr cv)
                  \<and> length (specs r) \<le> 2)"
      by (rule returns)
  qed
qed

theorem unknown_version_replaced_by_max_key_witness:
  "specs torch_1_13_0 \<noteq> []
   \<and> snd (specs torch_1_13_0 ! select_spec_idx (specs torch_1_13_0))
       \<notin> set (map fst AVAILABLE_TORCH_VERSIONS)
   \<and> get_torch_install_args parse_nothing linux_cpu (Req torch_1_13_0) =
       ([TorchVersionSelected ''2.2.0''],
        Inr [''--extra-index-url'', ''https://download.pytorch.org/whl/cpu'',
             ''torch==1.13.0+cpu'', ''torchvision==0.16.2''])"
proof -
  have sp: "specs torch_1_13_0 \<noteq> []" by (simp add: torch_1_13_0_def)
  have unknown: "snd (specs torch_1_13_0 ! select_spec_idx (specs torch_1_13_0))
       \<notin> set (map fst AVAILABLE_TORCH_VERSIONS)"
    by (simp add: torch_1_13_0_def select_spec_idx_def AVAILABLE_TORCH_VERSIONS_def)
  have arg: "Req torch_1_13_0 = Req torch_1_13_0
      \<or> (Req torch_1_13_0 = Str [] \<and> parse_nothing [] = Inr torch_1_13_0)"
    by simp
  have suffix: "get_hardware_suffix linux_cpu True (Some ''2.2.0'') = ok ''cpu''"
    by (simp add: get_hardware_suffix_def get_cuda_version_linux_cpu)
  have torch: "add_hardware_suffix_to_torch linux_cpu torch_1_13_0 (Some ''cpu'') True
      = ok ''torch==1.13.0+cpu''"
    by (simp add: add_hardware_suffix_to_torch_def torch_1_13_0_def updated_spec_def
        startswith_any_def startswith_def)
  have idx: "fst (specs torch_1_13_0 ! select_spec_idx (specs torch_1_13_0)) = ''==''"
    by (simp add: torch_1_13_0_def select_spec_idx_def)
  have os: "platform_system linux_cpu = ''Linux''" by (simp add: linux_cpu_def)
  from unknown_version_replaced_by_max_key
      [where r = torch_1_13_0 and h = linux_cpu and arg = "Req torch_1_13_0" and s = "[]"
         and Requirement_parse = parse_nothing, OF sp unknown arg]
  have "get_torch_install_args parse_nothing linux_cpu (Req torch_1_13_0) =
       ([TorchVersionSelected ''2.2.0''],
        Inr [''--extra-index-url'', ''https://download.pytorch.org/whl/cpu'',
             ''torch==1.13.0+cpu'', ''torchvision==0.16.2''])"
    by (simp add: suffix torch idx os and_then_def warn_def ok_def)
  with sp unknown show ?thesis by blast
qed

end
